theory Spec2Isabelle
  imports Main "HOL-Library.AList" "HOL-Library.Sublist"
begin

section \<open>The retrieval service of \<^verbatim>\<open>app.py\<close>\<close>

text \<open>
  \<^verbatim>\<open>app.py\<close> has two functions: \<^verbatim>\<open>query_snowflake_for_context\<close>, which checks the
  table name against \<^verbatim>\<open>ALLOWED_TABLES\<close>, builds the similarity query, runs it on a fresh
  Snowflake connection and zips the rows into dictionaries, and the request handler
  \<^verbatim>\<open>process_query\<close>, which asks OpenAI for the embedding, calls the former and turns
  every exception into an HTTP 500.

  The embedding provider and the data store are libraries outside the program. They are
  parameters of the model (the record \<open>env\<close>): each call either returns or raises a
  library exception, of which the program only ever reads the text \<^verbatim>\<open>str(e)\<close>. Every call
  of a library is appended to a trace of events, which the functions pass along, so that
  the order of the calls can be stated. The calls to \<^verbatim>\<open>logging\<close> are left out: they do
  not change the control flow.
\<close>

subsection \<open>Python values\<close>

text \<open>
  A Python \<^verbatim>\<open>float\<close>. The program never computes with the numbers of the embedding, it
  only prints them into the SQL text, so a float is carried as its \<^verbatim>\<open>repr\<close>.
\<close>

datatype pyfloat = PyFloat (repr: string)

text \<open>The scalars a row of the store holds; the program passes them through unread.\<close>

datatype scalar = SNone | SBool bool | SInt int | SStr string | SFloat pyfloat

text \<open>
  The exceptions (all subclasses of \<^verbatim>\<open>Exception\<close>) that can be raised while a request is
  handled: the framework's \<^verbatim>\<open>HTTPException(status_code, detail)\<close>, the interpreter's
  \<^verbatim>\<open>UnboundLocalError\<close> and \<^verbatim>\<open>IndexError\<close>, and the exceptions of the OpenAI and Snowflake
  libraries, which carry their text.
\<close>

datatype exn =
    HTTPException (status_code: nat) (detail: string)
  | UnboundLocalError string
  | IndexError string
  | ExternalError string

text \<open>\<^verbatim>\<open>str(n)\<close> of an integer: its decimal digits, with a minus sign when negative.\<close>

definition digit_char :: "nat \<Rightarrow> char" where
  "digit_char d = ''0123456789'' ! d"

fun str_nat :: "nat \<Rightarrow> string" where
  "str_nat n = (if n < 10 then [digit_char n] else str_nat (n div 10) @ [digit_char (n mod 10)])"

declare str_nat.simps [simp del]

definition str_int :: "int \<Rightarrow> string" where
  "str_int i = (if i < 0 then CHR ''-'' # str_nat (nat (- i)) else str_nat (nat i))"

text \<open>\<^verbatim>\<open>", ".join(xs)\<close>\<close>

fun join_comma :: "string list \<Rightarrow> string" where
  "join_comma [] = []"
| "join_comma [x] = x"
| "join_comma (x # y # ys) = x @ '', '' @ join_comma (y # ys)"

text \<open>\<^verbatim>\<open>str(xs)\<close> of a list of floats: the \<^verbatim>\<open>repr\<close> of the elements between brackets.\<close>

definition str_float_list :: "pyfloat list \<Rightarrow> string" where
  "str_float_list xs = ''['' @ join_comma (map repr xs) @ '']''"

text \<open>
  \<^verbatim>\<open>str(e)\<close>. The built-in exceptions and the library exceptions print their message;
  Starlette's \<^verbatim>\<open>HTTPException.__str__\<close> prints \<^verbatim>\<open>f"{status_code}: {detail}"\<close>.
\<close>

fun str_exn :: "exn \<Rightarrow> string" where
  "str_exn (HTTPException c d) = str_nat c @ '': '' @ d"
| "str_exn (UnboundLocalError m) = m"
| "str_exn (IndexError m) = m"
| "str_exn (ExternalError m) = m"

text \<open>
  A \<open>string\<close> is the list of the bytes of a Python \<^verbatim>\<open>str\<close> in UTF-8. \<^verbatim>\<open>s.upper()\<close> is the
  interpreter's Unicode case mapping; its table is not part of the program, so the mapping
  is a parameter of the model (the field \<open>str_upper\<close> of \<open>env\<close> below). The mapping of the
  ASCII letters, which is what an unquoted SQL identifier goes through, is \<open>ascii_upper\<close>.
\<close>

definition ascii_lowercase :: string where
  "ascii_lowercase = ''abcdefghijklmnopqrstuvwxyz''"

definition ascii_uppercase :: string where
  "ascii_uppercase = ''ABCDEFGHIJKLMNOPQRSTUVWXYZ''"

definition upper_char :: "char \<Rightarrow> char" where
  "upper_char c =
     (case map_of (zip ascii_lowercase ascii_uppercase) c of None \<Rightarrow> c | Some u \<Rightarrow> u)"

definition ascii_upper :: "string \<Rightarrow> string" where
  "ascii_upper s = map upper_char s"




text \<open>
  A Python \<^verbatim>\<open>dict\<close> is an association list with distinct keys in the order of their
  first insertion; \<^verbatim>\<open>d[k] = v\<close> is \<^const>\<open>AList.update\<close>. \<^verbatim>\<open>dict(pairs)\<close> inserts the
  pairs from left to right, so a later pair with the same key replaces the value.
\<close>

type_synonym context_record = "(string \<times> scalar) list"

definition dict :: "('k \<times> 'v) list \<Rightarrow> ('k \<times> 'v) list" where
  "dict kvs = fold (\<lambda>(k, v) d. AList.update k v d) kvs []"


subsection \<open>The libraries\<close>

text \<open>The module's settings, read from the process environment when it is loaded.\<close>

record config =
  sf_user :: "string option"
  sf_account :: "string option"
  sf_warehouse :: "string option"
  sf_database :: "string option"
  sf_schema :: "string option"
  pkb :: string

text \<open>
  One entry of \<^verbatim>\<open>cursor.description\<close>: the column's name at index 0, then its type code.
\<close>

type_synonym desc = "string \<times> nat"

text \<open>
  What the libraries do during one request. \<open>Inl m\<close> (or \<open>Some m\<close> for a call whose
  result is not used) means that the call raises a library exception with text \<open>m\<close>.
  \<^item> \<open>embeddings_create input model\<close> is \<^verbatim>\<open>openai.embeddings.create\<close>; it returns the
    embeddings of \<^verbatim>\<open>response.data\<close>, in order.
  \<^item> \<open>connect cfg\<close> is \<^verbatim>\<open>snowflake.connector.connect\<close>, \<open>ctx_cursor\<close> is \<^verbatim>\<open>ctx.cursor()\<close>.
  \<^item> \<open>cursor_execute sql\<close>, \<open>cursor_fetchall sql\<close> and \<open>cursor_description sql\<close> are
    \<^verbatim>\<open>cursor.execute(sql)\<close> and, after it, \<^verbatim>\<open>cursor.fetchall()\<close> and the attribute
    \<^verbatim>\<open>cursor.description\<close>.
  \<^item> \<open>cursor_close\<close> and \<open>ctx_close\<close> are the two \<^verbatim>\<open>close()\<close> calls.
  \<^item> \<open>str_upper s\<close> is the built-in \<^verbatim>\<open>s.upper()\<close>.
\<close>

record env =
  settings :: config
  embeddings_create :: "string list \<Rightarrow> string \<Rightarrow> string + pyfloat list list"
  connect :: "config \<Rightarrow> string option"
  ctx_cursor :: "string option"
  cursor_execute :: "string \<Rightarrow> string option"
  cursor_fetchall :: "string \<Rightarrow> string + scalar list list"
  cursor_description :: "string \<Rightarrow> string + desc list"
  cursor_close :: "string option"
  ctx_close :: "string option"
  str_upper :: "string \<Rightarrow> string"

datatype event =
    EmbeddingsCreate "string list" string
  | Connect config
  | CtxCursor
  | CursorExecute string
  | CursorFetchall
  | CursorClose
  | CtxClose

text \<open>The events that reach the data store.\<close>

fun is_store_event :: "event \<Rightarrow> bool" where
  "is_store_event (EmbeddingsCreate _ _) = False"
| "is_store_event _ = True"

subsection \<open>\<^verbatim>\<open>query_snowflake_for_context\<close>\<close>

definition ALLOWED_TABLES :: "string set" where
  "ALLOWED_TABLES = {''T2D_WIKI'', ''AI_IMPACT_DATA''}"

definition NL :: string where
  "NL = [CHR 0x0A]"

definition TAB :: string where
  "TAB = [CHR 0x09]"

text \<open>The columns the query selects, as written between \<^verbatim>\<open>SELECT\<close> and \<^verbatim>\<open>FROM\<close>.\<close>

definition select_list :: string where
  "select_list =
     ''            ID,'' @ NL @
     ''        '' @ TAB @ ''SOURCE_FILE,'' @ NL @
     ''        '' @ TAB @ ''TEXT,'' @ NL @
     ''        '' @ TAB @ ''PAGES,'' @ NL @
     ''        '' @ TAB @ ''CITATION_COUNT,'' @ NL @
     ''        '' @ TAB @ ''DOI,'' @ NL @
     ''        '' @ TAB @ ''TITLE,'' @ NL @
     ''        '' @ TAB @ ''AUTHORS,'' @ NL @
     ''        '' @ TAB @ ''PUBLISHED,'' @ NL @
     ''        '' @ TAB @ ''CITATION,'' @ NL @
     ''        '' @ TAB @ ''PAGE_REFERENCE,'' @ NL @
     ''        '' @ TAB @ ''SAS_URL,'' @ NL @
     ''        '' @ TAB @ ''IS_TABLE,'' @ NL @
     ''        '' @ TAB @ ''SUMMARY,'' @ NL @
     ''            VECTOR_COSINE_SIMILARITY(EMBEDDING_VECTOR, QVEC) AS similarity'' @ NL"

text \<open>The f-string of the query, with its three interpolations.\<close>

definition sql_text :: "string \<Rightarrow> string \<Rightarrow> int \<Rightarrow> string" where
  "sql_text vector_str tn k =
     NL @
     ''        WITH QUERY AS ('' @ NL @
     ''            SELECT '' @ vector_str @ ''::VECTOR(FLOAT, 1536) AS QVEC'' @ NL @
     ''        )'' @ NL @
     NL @
     ''        SELECT'' @ NL @
     select_list @
     ''        FROM '' @ tn @ '', QUERY'' @ NL @
     ''        ORDER BY similarity DESC'' @ NL @
     ''        LIMIT '' @ str_int k @ '';'' @ NL @
     ''        ''"

text \<open>
  The branch \<^verbatim>\<open>if table_name in ("T2D_WIKI", "AI_IMPACT_DATA")\<close>: the local variable
  \<^verbatim>\<open>sql\<close> is bound in it and stays unbound (\<open>None\<close>) otherwise.
\<close>

definition bind_sql :: "string \<Rightarrow> string \<Rightarrow> int \<Rightarrow> string option" where
  "bind_sql vector_str tn k =
     (if tn \<in> set [''T2D_WIKI'', ''AI_IMPACT_DATA''] then Some (sql_text vector_str tn k)
      else None)"

text \<open>\<^verbatim>\<open>[dict(zip(columns, row)) for row in rows]\<close>\<close>

definition assemble :: "string list \<Rightarrow> scalar list list \<Rightarrow> context_record list" where
  "assemble columns rows = map (\<lambda>row. dict (zip columns row)) rows"

text \<open>
  The function takes the trace so far and returns the raised exception or the context
  list, with the trace extended by the library calls it made. An exception leaves the
  function at once: no statement after the raising one runs. Reading \<^verbatim>\<open>sql\<close> while it
  is unbound raises \<^verbatim>\<open>UnboundLocalError\<close>; the wording of its message depends on the
  interpreter's version and is abbreviated.
\<close>

definition query_snowflake_for_context ::
  "env \<Rightarrow> pyfloat list \<Rightarrow> string \<Rightarrow> int \<Rightarrow> event list \<Rightarrow> (exn + context_record list) \<times> event list"
where
  "query_snowflake_for_context e query_embedding table_name0 k tr =
     (let tn = str_upper e table_name0 in
      if tn \<notin> ALLOWED_TABLES then (Inl (HTTPException 403 ''Table not allowed.''), tr)
      else
       (let vector_str = str_float_list query_embedding;
            tr1 = tr @ [Connect (settings e)] in
       (case connect e (settings e) of
          Some m \<Rightarrow> (Inl (ExternalError m), tr1)
        | None \<Rightarrow>
       (let sql = bind_sql vector_str tn k;
            tr2 = tr1 @ [CtxCursor] in
       (case ctx_cursor e of
          Some m \<Rightarrow> (Inl (ExternalError m), tr2)
        | None \<Rightarrow>
       (case sql of
          None \<Rightarrow> (Inl (UnboundLocalError ''local variable sql is not bound''), tr2)
        | Some q \<Rightarrow>
       (let tr3 = tr2 @ [CursorExecute q] in
       (case cursor_execute e q of
          Some m \<Rightarrow> (Inl (ExternalError m), tr3)
        | None \<Rightarrow>
       (let tr4 = tr3 @ [CursorFetchall] in
       (case cursor_fetchall e q of
          Inl m \<Rightarrow> (Inl (ExternalError m), tr4)
        | Inr rows \<Rightarrow>
       (case cursor_description e q of
          Inl m \<Rightarrow> (Inl (ExternalError m), tr4)
        | Inr descs \<Rightarrow>
       (let columns = map fst descs;
            tr5 = tr4 @ [CursorClose] in
       (case cursor_close e of
          Some m \<Rightarrow> (Inl (ExternalError m), tr5)
        | None \<Rightarrow>
       (let tr6 = tr5 @ [CtxClose] in
       (case ctx_close e of
          Some m \<Rightarrow> (Inl (ExternalError m), tr6)
        | None \<Rightarrow> (Inr (assemble columns rows), tr6))))))))))))))))"

subsection \<open>\<^verbatim>\<open>process_query\<close>\<close>

record QueryRequest =
  query_text :: string
  top_k :: int
  table_name :: string

text \<open>The body of the \<^verbatim>\<open>try\<close> block; \<^verbatim>\<open>data[0]\<close> of an empty list raises \<^verbatim>\<open>IndexError\<close>.\<close>

definition process_query_try ::
  "env \<Rightarrow> QueryRequest \<Rightarrow> event list \<Rightarrow> (exn + context_record list) \<times> event list"
where
  "process_query_try e query_data tr =
     (let tr1 = tr @ [EmbeddingsCreate [query_text query_data] ''text-embedding-3-small''] in
      (case embeddings_create e [query_text query_data] ''text-embedding-3-small'' of
         Inl m \<Rightarrow> (Inl (ExternalError m), tr1)
       | Inr data \<Rightarrow>
          (case data of
             [] \<Rightarrow> (Inl (IndexError ''list index out of range''), tr1)
           | embedding # _ \<Rightarrow>
               query_snowflake_for_context e embedding (table_name query_data)
                 (top_k query_data) tr1)))"

text \<open>
  The handler: \<^verbatim>\<open>except Exception as e\<close> catches every exception of the \<^verbatim>\<open>try\<close> block,
  the \<^verbatim>\<open>HTTPException\<close> of the allow-list check too (it is a subclass of \<^verbatim>\<open>Exception\<close>),
  and raises \<^verbatim>\<open>HTTPException(500, "Process failed: " + str(e))\<close>. The successful result is
  the dictionary with the single key \<^verbatim>\<open>context\<close>, modelled by its value.
\<close>

definition process_query ::
  "env \<Rightarrow> QueryRequest \<Rightarrow> event list \<Rightarrow> (exn + context_record list) \<times> event list"
where
  "process_query e query_data tr =
     (case process_query_try e query_data tr of
        (Inr ctx, tr') \<Rightarrow> (Inr ctx, tr')
      | (Inl x, tr') \<Rightarrow> (Inl (HTTPException 500 (''Process failed: '' @ str_exn x)), tr'))"

subsection \<open>The store's side of the query, and stubs\<close>


text \<open>
  The names under which the store reports the columns of a select list in
  \<^verbatim>\<open>cursor.description\<close>. The items of the list are its lines, without the white space
  around them and the comma behind them; Snowflake names a column by the alias behind
  \<^verbatim>\<open>AS\<close> when there is one and by the identifier otherwise, which is the last word of the
  item, and reports an unquoted name in upper case.
\<close>

fun split_on :: "char \<Rightarrow> string \<Rightarrow> string list" where
  "split_on c [] = [[]]"
| "split_on c (x # xs) =
     (if x = c then [] # split_on c xs
      else (case split_on c xs of [] \<Rightarrow> [[x]] | w # ws \<Rightarrow> (x # w) # ws))"

definition strip_item :: "string \<Rightarrow> string" where
  "strip_item s =
     (let t = dropWhile (\<lambda>c. c = CHR '' '' \<or> c = CHR 0x09) s
      in if t \<noteq> [] \<and> last t = CHR '','' then butlast t else t)"

definition select_items :: "string \<Rightarrow> string list" where
  "select_items s = filter (\<lambda>item. item \<noteq> []) (map strip_item (split_on (CHR 0x0A) s))"

definition reported_name :: "string \<Rightarrow> string" where
  "reported_name item = ascii_upper (last (split_on (CHR '' '') item))"

definition SELECTED_COLUMNS :: "string list" where
  "SELECTED_COLUMNS = map reported_name (select_items select_list)"

text \<open>
  The query that a request sends when the provider answered with \<open>embedding\<close>, and the
  trace of a request that runs to its end.
\<close>

definition request_sql :: "env \<Rightarrow> pyfloat list \<Rightarrow> QueryRequest \<Rightarrow> string" where
  "request_sql e embedding query_data =
     sql_text (str_float_list embedding) (str_upper e (table_name query_data))
       (top_k query_data)"



text \<open>
  A call to the store raises a library exception with the text \<open>m\<close> while the query
  \<open>q\<close> is run.
\<close>

definition store_raises :: "env \<Rightarrow> string \<Rightarrow> string \<Rightarrow> bool" where
  "store_raises e q m \<longleftrightarrow>
     connect e (settings e) = Some m \<or> ctx_cursor e = Some m \<or> cursor_execute e q = Some m \<or>
     cursor_fetchall e q = Inl m \<or> cursor_description e q = Inl m \<or>
     cursor_close e = Some m \<or> ctx_close e = Some m"

text \<open>
  Stubs for concrete runs: a provider that returns the vector \<^verbatim>\<open>[0.1, 0.2, 0.3, 0.4]\<close>, a
  store that answers every query with three rows of the fifteen columns, in descending
  similarity, and a part of the case mapping: the ASCII letters and the dotless i
  (U+0131, the bytes C4 B1), which \<^verbatim>\<open>str.upper\<close> maps to \<^verbatim>\<open>I\<close>.
\<close>

fun stub_upper :: "string \<Rightarrow> string" where
  "stub_upper [] = []"
| "stub_upper [c] = [upper_char c]"
| "stub_upper (c # d # cs) =
     (if c = CHR 0xC4 \<and> d = CHR 0xB1 then CHR ''I'' # stub_upper cs
      else upper_char c # stub_upper (d # cs))"

definition dotless_i :: string where
  "dotless_i = [CHR 0xC4, CHR 0xB1]"

definition stub_settings :: config where
  "stub_settings =
     \<lparr>sf_user = Some ''svc'', sf_account = Some ''acct'', sf_warehouse = Some ''wh'',
      sf_database = Some ''db'', sf_schema = Some ''public'', pkb = ''der-bytes''\<rparr>"

definition stub_embedding :: "pyfloat list" where
  "stub_embedding = [PyFloat ''0.1'', PyFloat ''0.2'', PyFloat ''0.3'', PyFloat ''0.4'']"

definition stub_row :: "int \<Rightarrow> string \<Rightarrow> scalar list" where
  "stub_row i sim =
     [SInt i, SStr ''a.pdf'', SStr ''text'', SStr ''1-2'', SInt 7, SNone, SStr ''Title'',
      SStr ''Authors'', SStr ''2020'', SStr ''Citation'', SStr ''p. 1'', SStr ''https://x'',
      SBool False, SStr ''Summary'', SFloat (PyFloat sim)]"

definition stub_rows :: "scalar list list" where
  "stub_rows = [stub_row 1 ''0.9'', stub_row 2 ''0.8'', stub_row 3 ''0.7'']"

definition stub_env :: env where
  "stub_env =
     \<lparr>settings = stub_settings,
      embeddings_create = (\<lambda>input model. Inr [stub_embedding]),
      connect = (\<lambda>cfg. None),
      ctx_cursor = None,
      cursor_execute = (\<lambda>sql. None),
      cursor_fetchall = (\<lambda>sql. Inr stub_rows),
      cursor_description = (\<lambda>sql. Inr (map (\<lambda>c. (c, 0)) SELECTED_COLUMNS)),
      cursor_close = None,
      ctx_close = None,
      str_upper = stub_upper\<rparr>"


definition stub_request :: "string \<Rightarrow> QueryRequest" where
  "stub_request tn = \<lparr>query_text = ''what is AI impact on jobs'', top_k = 3, table_name = tn\<rparr>"

section \<open>Properties\<close>

subsection \<open>Decimal numerals\<close>







subsection \<open>The allow-list check\<close>

lemma bind_sql_allowed:
  "tn \<in> ALLOWED_TABLES \<Longrightarrow> bind_sql v tn k = Some (sql_text v tn k)"
  by (auto simp: ALLOWED_TABLES_def bind_sql_def)

lemma qsfc_forbidden:
  "str_upper e t \<notin> ALLOWED_TABLES \<Longrightarrow>
   query_snowflake_for_context e emb t k tr = (Inl (HTTPException 403 ''Table not allowed.''), tr)"
  by (simp add: query_snowflake_for_context_def)

lemma qsfc_same_upper:
  "str_upper e t = str_upper e t' \<Longrightarrow>
   query_snowflake_for_context e emb t k tr = query_snowflake_for_context e emb t' k tr"
  by (simp add: query_snowflake_for_context_def)


lemma qsfc_never_unbound:
  "query_snowflake_for_context e emb t k tr \<noteq> (Inl (UnboundLocalError m), tr')"
  by (auto simp: query_snowflake_for_context_def Let_def bind_sql_allowed
           split: option.splits sum.splits)

lemma qsfc_failure:
  assumes "query_snowflake_for_context e emb t k tr = (Inl y, tr')"
    and "str_upper e t \<in> ALLOWED_TABLES"
  shows "\<exists>m. y = ExternalError m \<and>
           store_raises e (sql_text (str_float_list emb) (str_upper e t) k) m"
  using assms
  by (auto simp: query_snowflake_for_context_def Let_def bind_sql_allowed store_raises_def
           split: option.splits sum.splits)

lemma qsfc_forbidden_iff:
  "fst (query_snowflake_for_context e emb t k tr) = Inl (HTTPException 403 ''Table not allowed.'')
     \<longleftrightarrow> str_upper e t \<notin> ALLOWED_TABLES"
proof (cases "str_upper e t \<in> ALLOWED_TABLES")
  case True
  obtain r tr' where r: "query_snowflake_for_context e emb t k tr = (r, tr')"
    by (cases "query_snowflake_for_context e emb t k tr")
  have "r \<noteq> Inl (HTTPException 403 ''Table not allowed.'')"
  proof
    assume "r = Inl (HTTPException 403 ''Table not allowed.'')"
    with r qsfc_failure [OF _ True] show False by fastforce
  qed
  with r True show ?thesis by simp
next
  case False
  then show ?thesis by (simp add: qsfc_forbidden)
qed

subsection \<open>Dictionaries\<close>











subsection \<open>Successful runs, the query text, the assembly\<close>




lemma process_query_failure:
  "process_query e qd tr = (Inl x, tr') \<longleftrightarrow>
     (\<exists>y. process_query_try e qd tr = (Inl y, tr') \<and>
          x = HTTPException 500 (''Process failed: '' @ str_exn y))"
  by (auto simp: process_query_def split: sum.splits prod.splits)

lemma process_query_same_upper:
  "str_upper e t = str_upper e t' \<Longrightarrow>
   process_query e (qd\<lparr>table_name := t\<rparr>) tr = process_query e (qd\<lparr>table_name := t'\<rparr>) tr"
  by (simp add: process_query_def process_query_try_def Let_def qsfc_same_upper [of e t t']
        split: sum.splits list.splits)



lemma sql_text_vector: "sublist v (sql_text v tn k)"
proof -
  have "sql_text v tn k =
      (NL @ ''        WITH QUERY AS ('' @ NL @ ''            SELECT '') @ v @
      (''::VECTOR(FLOAT, 1536) AS QVEC'' @ NL @ ''        )'' @ NL @ NL @ ''        SELECT'' @ NL @
       select_list @ ''        FROM '' @ tn @ '', QUERY'' @ NL @
       ''        ORDER BY similarity DESC'' @ NL @ ''        LIMIT '' @ str_int k @ '';'' @ NL @ ''        '')"
    by (simp add: sql_text_def)
  then show ?thesis by (simp only: sublist_appendI)
qed





subsection \<open>The run of the stubs\<close>











lemma stub_embeddings: "embeddings_create stub_env input model = Inr [stub_embedding]"
  by (simp add: stub_env_def)

lemma stub_secret_upper: "str_upper stub_env ''secret_table'' \<notin> ALLOWED_TABLES"
  by (simp add: stub_env_def ALLOWED_TABLES_def
        upper_char_def ascii_lowercase_def ascii_uppercase_def)

lemma stub_secret_forbidden:
  "query_snowflake_for_context stub_env emb ''secret_table'' k tr
     = (Inl (HTTPException 403 ''Table not allowed.''), tr)"
  by (rule qsfc_forbidden [OF stub_secret_upper])


lemma qsfc_executes_upper:
  "CursorExecute q \<in> set (snd (query_snowflake_for_context e emb t k tr)) \<Longrightarrow>
   CursorExecute q \<in> set tr \<or> q = sql_text (str_float_list emb) (str_upper e t) k"
  by (auto simp: query_snowflake_for_context_def Let_def bind_sql_def
           split: if_splits option.splits sum.splits)

section \<open>The claims\<close>

subsection \<open>C1: a table outside the allow-list\<close>

text \<open>
  C1 as stated: a request whose table name is not in the allow-list is rejected before the
  embedding provider and before the data store are called. It fails for the provider:
  \<^verbatim>\<open>process_query\<close> calls \<^verbatim>\<open>openai.embeddings.create\<close> first and reaches the allow-list
  check only inside \<^verbatim>\<open>query_snowflake_for_context\<close>. For the stub provider and the table
  \<^verbatim>\<open>secret_table\<close> the call is in the trace.
\<close>

theorem embedding_precedes_rejection_counterexample:
  "str_upper stub_env (table_name (stub_request ''secret_table'')) \<notin> ALLOWED_TABLES \<and>
   EmbeddingsCreate [''what is AI impact on jobs''] ''text-embedding-3-small''
     \<in> set (snd (process_query stub_env (stub_request ''secret_table'') []))"
proof -
  have h: "str_upper stub_env (table_name (stub_request ''secret_table'')) \<notin> ALLOWED_TABLES"
    using stub_secret_upper by (simp add: stub_request_def)
  have "snd (process_query stub_env (stub_request ''secret_table'') [])
      = [EmbeddingsCreate [''what is AI impact on jobs''] ''text-embedding-3-small'']"
    by (simp add: process_query_def process_query_try_def stub_embeddings
          stub_secret_forbidden stub_request_def)
  with h show ?thesis by simp
qed

text \<open>
  C1, amended: for every request whose table name, put in upper case by \<^verbatim>\<open>str.upper\<close>, is
  not in the allow-list, \<^verbatim>\<open>query_snowflake_for_context\<close> raises the 403
  \<^verbatim>\<open>Table not allowed.\<close> without any call of its own (the trace is unchanged), and the whole
  request makes exactly one library call, the one to the embedding provider: the data
  store is never called. The statement holds for every case mapping \<open>str_upper e\<close>.
\<close>

theorem disallowed_table_no_store_call:
  assumes "str_upper e (table_name query_data) \<notin> ALLOWED_TABLES"
  shows "query_snowflake_for_context e embedding (table_name query_data) (top_k query_data) tr
           = (Inl (HTTPException 403 ''Table not allowed.''), tr) \<and>
         snd (process_query e query_data tr)
           = tr @ [EmbeddingsCreate [query_text query_data] ''text-embedding-3-small''] \<and>
         filter is_store_event (snd (process_query e query_data tr)) = filter is_store_event tr"
  using assms
  by (auto simp: process_query_def process_query_try_def qsfc_forbidden Let_def
           split: sum.splits list.splits prod.splits)

text \<open>The amended C1 at the stub provider and the table \<^verbatim>\<open>secret_table\<close>.\<close>

theorem disallowed_table_no_store_call_witness:
  "str_upper stub_env (table_name (stub_request ''secret_table'')) \<notin> ALLOWED_TABLES \<and>
   query_snowflake_for_context stub_env stub_embedding ''secret_table'' 3 []
     = (Inl (HTTPException 403 ''Table not allowed.''), []) \<and>
   snd (process_query stub_env (stub_request ''secret_table'') [])
     = [EmbeddingsCreate [''what is AI impact on jobs''] ''text-embedding-3-small''] \<and>
   filter is_store_event (snd (process_query stub_env (stub_request ''secret_table'') [])) = []"
proof -
  have h: "str_upper stub_env (table_name (stub_request ''secret_table'')) \<notin> ALLOWED_TABLES"
    using stub_secret_upper by (simp add: stub_request_def)
  show ?thesis
    using h disallowed_table_no_store_call [OF h, of stub_embedding "[]"]
    by (simp add: stub_request_def)
qed

subsection \<open>C2: the outcome for a table outside the allow-list\<close>

text \<open>
  C2 says that the caller of \<^verbatim>\<open>process_query\<close> receives the 403 \<^verbatim>\<open>Table not allowed.\<close>
  for a table outside the allow-list. The 403 is raised inside the \<^verbatim>\<open>try\<close> block, and
  \<^verbatim>\<open>except Exception\<close> catches it: the request for \<^verbatim>\<open>secret_table\<close> is answered with
  the status 500.
\<close>

theorem forbidden_table_answered_500:
  "process_query stub_env (stub_request ''secret_table'') [] =
     (Inl (HTTPException 500 ''Process failed: 403: Table not allowed.''),
      [EmbeddingsCreate [''what is AI impact on jobs''] ''text-embedding-3-small''])"
  by (simp add: process_query_def process_query_try_def stub_embeddings stub_secret_forbidden
        stub_request_def str_nat.simps digit_char_def)

subsection \<open>C3: closing the connection\<close>

text \<open>
  C3 says that the connection is closed on every exit path. \<^verbatim>\<open>ctx.close()\<close> is only on
  the path without an exception: when \<^verbatim>\<open>cursor.execute\<close> raises, the function is left
  with the connection opened and never closed.
\<close>

theorem connection_not_closed_when_execute_raises:
  "query_snowflake_for_context (stub_env\<lparr>cursor_execute := \<lambda>sql. Some ''SQL compilation error''\<rparr>)
      stub_embedding ''t2d_wiki'' 3 [] =
     (Inl (ExternalError ''SQL compilation error''),
      [Connect stub_settings, CtxCursor,
       CursorExecute (sql_text (str_float_list stub_embedding) ''T2D_WIKI'' 3)]) \<and>
   CtxClose \<notin> set (snd (query_snowflake_for_context
      (stub_env\<lparr>cursor_execute := \<lambda>sql. Some ''SQL compilation error''\<rparr>)
      stub_embedding ''t2d_wiki'' 3 []))"
  by (simp add: query_snowflake_for_context_def ALLOWED_TABLES_def bind_sql_def
        stub_env_def Let_def upper_char_def ascii_lowercase_def ascii_uppercase_def)

subsection \<open>C4: the message of the internal error\<close>

text \<open>
  C4 as stated: the detail of a 500 never contains the contents of the embedding vector.
  The detail is \<^verbatim>\<open>str(e)\<close> of the caught exception behind a fixed prefix; a store whose
  error message quotes the statement it was given puts the vector literal of the SQL
  text into the detail.
\<close>

theorem detail_repeats_vector_counterexample:
  "process_query (stub_env\<lparr>cursor_execute := \<lambda>sql. Some (''SQL compilation error in: '' @ sql)\<rparr>)
      (stub_request ''t2d_wiki'') [] =
     (Inl (HTTPException 500 (''Process failed: SQL compilation error in: '' @
             sql_text ''[0.1, 0.2, 0.3, 0.4]'' ''T2D_WIKI'' 3)),
      [EmbeddingsCreate [''what is AI impact on jobs''] ''text-embedding-3-small'',
       Connect stub_settings, CtxCursor,
       CursorExecute (sql_text ''[0.1, 0.2, 0.3, 0.4]'' ''T2D_WIKI'' 3)]) \<and>
   str_float_list stub_embedding = ''[0.1, 0.2, 0.3, 0.4]'' \<and>
   sublist ''[0.1, 0.2, 0.3, 0.4]''
     (''Process failed: SQL compilation error in: '' @ sql_text ''[0.1, 0.2, 0.3, 0.4]'' ''T2D_WIKI'' 3)"
proof -
  have v: "str_float_list stub_embedding = ''[0.1, 0.2, 0.3, 0.4]''"
    by (simp add: str_float_list_def stub_embedding_def)
  have "sublist ''[0.1, 0.2, 0.3, 0.4]'' (sql_text ''[0.1, 0.2, 0.3, 0.4]'' ''T2D_WIKI'' 3)"
    by (rule sql_text_vector)
  then have s: "sublist ''[0.1, 0.2, 0.3, 0.4]''
     (''Process failed: SQL compilation error in: '' @ sql_text ''[0.1, 0.2, 0.3, 0.4]'' ''T2D_WIKI'' 3)"
    by (meson sublist_append)
  have r: "process_query (stub_env\<lparr>cursor_execute := \<lambda>sql. Some (''SQL compilation error in: '' @ sql)\<rparr>)
      (stub_request ''t2d_wiki'') [] =
     (Inl (HTTPException 500 (''Process failed: SQL compilation error in: '' @
             sql_text ''[0.1, 0.2, 0.3, 0.4]'' ''T2D_WIKI'' 3)),
      [EmbeddingsCreate [''what is AI impact on jobs''] ''text-embedding-3-small'',
       Connect stub_settings, CtxCursor,
       CursorExecute (sql_text ''[0.1, 0.2, 0.3, 0.4]'' ''T2D_WIKI'' 3)])"
    by (simp add: process_query_def process_query_try_def query_snowflake_for_context_def
          ALLOWED_TABLES_def bind_sql_def stub_env_def stub_request_def Let_def v
          upper_char_def ascii_lowercase_def ascii_uppercase_def)
  from r v s show ?thesis by blast
qed

text \<open>
  C4, amended: for every request for an allowed table that ends in the internal-error
  outcome, the detail is \<^verbatim>\<open>Process failed: \<close> followed, unchanged, by the text of the
  exception that was caught: the text a library call raised with (the provider's, or one
  of the store's calls for the query of the request), or \<^verbatim>\<open>list index out of range\<close> when
  the provider returned no embedding. The handler adds nothing else and removes nothing.
\<close>

theorem internal_error_detail:
  assumes "process_query e query_data tr = (Inl x, tr')"
    and "str_upper e (table_name query_data) \<in> ALLOWED_TABLES"
  shows "\<exists>m. x = HTTPException 500 (''Process failed: '' @ m) \<and>
     (embeddings_create e [query_text query_data] ''text-embedding-3-small'' = Inl m \<or>
      embeddings_create e [query_text query_data] ''text-embedding-3-small'' = Inr [] \<and>
        m = ''list index out of range'' \<or>
      (\<exists>embedding rest.
         embeddings_create e [query_text query_data] ''text-embedding-3-small''
           = Inr (embedding # rest) \<and>
         store_raises e (request_sql e embedding query_data) m))"
proof -
  from assms(1) obtain y where y: "process_query_try e query_data tr = (Inl y, tr')"
    and x: "x = HTTPException 500 (''Process failed: '' @ str_exn y)"
    by (auto simp: process_query_failure)
  show ?thesis
  proof (cases "embeddings_create e [query_text query_data] ''text-embedding-3-small''")
    case (Inl m)
    with y x show ?thesis by (auto simp: process_query_try_def)
  next
    case (Inr data)
    show ?thesis
    proof (cases data)
      case Nil
      with Inr y x show ?thesis by (auto simp: process_query_try_def)
    next
      case (Cons embedding rest)
      with Inr y have "query_snowflake_for_context e embedding (table_name query_data)
          (top_k query_data) (tr @ [EmbeddingsCreate [query_text query_data] ''text-embedding-3-small''])
          = (Inl y, tr')"
        by (simp add: process_query_try_def)
      from qsfc_failure [OF this assms(2)] obtain m where
        "y = ExternalError m" "store_raises e (request_sql e embedding query_data) m"
        by (auto simp: request_sql_def)
      with Inr Cons x show ?thesis by auto
    qed
  qed
qed

text \<open>The amended C4 for a store that refuses the connection.\<close>

theorem internal_error_detail_witness:
  "process_query (stub_env\<lparr>connect := \<lambda>cfg. Some ''connection refused''\<rparr>)
      (stub_request ''t2d_wiki'') []
     = (Inl (HTTPException 500 ''Process failed: connection refused''),
        [EmbeddingsCreate [''what is AI impact on jobs''] ''text-embedding-3-small'',
         Connect stub_settings]) \<and>
   str_upper (stub_env\<lparr>connect := \<lambda>cfg. Some ''connection refused''\<rparr>)
     (table_name (stub_request ''t2d_wiki'')) \<in> ALLOWED_TABLES \<and>
   store_raises (stub_env\<lparr>connect := \<lambda>cfg. Some ''connection refused''\<rparr>)
     (request_sql (stub_env\<lparr>connect := \<lambda>cfg. Some ''connection refused''\<rparr>)
        stub_embedding (stub_request ''t2d_wiki'')) ''connection refused''"
proof -
  let ?e = "stub_env\<lparr>connect := \<lambda>cfg. Some ''connection refused''\<rparr>"
  have h1: "process_query ?e (stub_request ''t2d_wiki'') []
     = (Inl (HTTPException 500 ''Process failed: connection refused''),
        [EmbeddingsCreate [''what is AI impact on jobs''] ''text-embedding-3-small'',
         Connect stub_settings])"
    by (simp add: process_query_def process_query_try_def query_snowflake_for_context_def
          ALLOWED_TABLES_def stub_env_def stub_request_def Let_def
          upper_char_def ascii_lowercase_def ascii_uppercase_def)
  have h2: "str_upper ?e (table_name (stub_request ''t2d_wiki'')) \<in> ALLOWED_TABLES"
    by (simp add: stub_request_def stub_env_def ALLOWED_TABLES_def
          upper_char_def ascii_lowercase_def ascii_uppercase_def)
  from internal_error_detail [OF h1 h2]
  have "store_raises ?e (request_sql ?e stub_embedding (stub_request ''t2d_wiki''))
          ''connection refused''"
    by (auto simp: stub_env_def)
  with h1 h2 show ?thesis by blast
qed

subsection \<open>C5: the order of the context list\<close>




subsection \<open>C6: the keys of the context records\<close>




subsection \<open>C7: the length of the context list\<close>




subsection \<open>C8: the casing of the table name\<close>

text \<open>
  C8: the table name is read only through \<^verbatim>\<open>table_name.upper()\<close>, before the allow-list
  check and before the query is built. So two names with the same upper-case form are
  treated identically by \<^verbatim>\<open>query_snowflake_for_context\<close> and by \<^verbatim>\<open>process_query\<close>
  (result and trace); a name is treated as its upper-case form is, the case mapping being
  idempotent there (as \<^verbatim>\<open>str.upper\<close> is); the request is rejected with the 403 exactly when
  the upper-case form is not in the allow-list; and the only query the function executes
  is the one built from the upper-case form. The statement holds for every case mapping
  \<open>str_upper e\<close>.
\<close>

theorem table_name_case_insensitive:
  "(str_upper e t = str_upper e t' \<longrightarrow>
      query_snowflake_for_context e embedding t k tr
        = query_snowflake_for_context e embedding t' k tr \<and>
      process_query e (query_data\<lparr>table_name := t\<rparr>) tr
        = process_query e (query_data\<lparr>table_name := t'\<rparr>) tr) \<and>
   (str_upper e (str_upper e t) = str_upper e t \<longrightarrow>
      query_snowflake_for_context e embedding (str_upper e t) k tr
        = query_snowflake_for_context e embedding t k tr \<and>
      process_query e (query_data\<lparr>table_name := str_upper e t\<rparr>) tr
        = process_query e (query_data\<lparr>table_name := t\<rparr>) tr) \<and>
   (fst (query_snowflake_for_context e embedding t k tr)
        = Inl (HTTPException 403 ''Table not allowed.'')
      \<longleftrightarrow> str_upper e t \<notin> ALLOWED_TABLES) \<and>
   (\<forall>q. CursorExecute q \<in> set (snd (query_snowflake_for_context e embedding t k tr)) \<longrightarrow>
        CursorExecute q \<in> set tr \<or>
        q = sql_text (str_float_list embedding) (str_upper e t) k)"
proof -
  have a: "str_upper e t = str_upper e t' \<Longrightarrow>
      query_snowflake_for_context e embedding t k tr
        = query_snowflake_for_context e embedding t' k tr \<and>
      process_query e (query_data\<lparr>table_name := t\<rparr>) tr
        = process_query e (query_data\<lparr>table_name := t'\<rparr>) tr"
    by (simp only: qsfc_same_upper [of e t t'] process_query_same_upper [of e t t'])
  have b: "str_upper e (str_upper e t) = str_upper e t \<Longrightarrow>
      query_snowflake_for_context e embedding (str_upper e t) k tr
        = query_snowflake_for_context e embedding t k tr \<and>
      process_query e (query_data\<lparr>table_name := str_upper e t\<rparr>) tr
        = process_query e (query_data\<lparr>table_name := t\<rparr>) tr"
    by (simp only: qsfc_same_upper [of e "str_upper e t" t]
          process_query_same_upper [of e "str_upper e t" t])
  from a b qsfc_forbidden_iff [of e embedding t k tr] qsfc_executes_upper [of _ e embedding t k tr]
  show ?thesis by blast
qed

text \<open>
  C8 at a casing of \<^verbatim>\<open>T2D_WIKI\<close> outside ASCII: \<^verbatim>\<open>t2d_wik\<close> followed by the dotless i, which
  \<^verbatim>\<open>str.upper\<close> maps to \<^verbatim>\<open>I\<close>.
\<close>

theorem table_name_case_insensitive_witness:
  "str_upper stub_env (''t2d_wik'' @ dotless_i) = str_upper stub_env ''T2D_WIKI'' \<and>
   str_upper stub_env (str_upper stub_env (''t2d_wik'' @ dotless_i))
     = str_upper stub_env (''t2d_wik'' @ dotless_i) \<and>
   str_upper stub_env (''t2d_wik'' @ dotless_i) \<in> ALLOWED_TABLES \<and>
   query_snowflake_for_context stub_env stub_embedding (''t2d_wik'' @ dotless_i) 3 []
     = query_snowflake_for_context stub_env stub_embedding ''T2D_WIKI'' 3 [] \<and>
   process_query stub_env (stub_request (''t2d_wik'' @ dotless_i)) []
     = process_query stub_env (stub_request ''T2D_WIKI'') [] \<and>
   fst (query_snowflake_for_context stub_env stub_embedding (''t2d_wik'' @ dotless_i) 3 [])
     \<noteq> Inl (HTTPException 403 ''Table not allowed.'')"
proof -
  let ?t = "''t2d_wik'' @ dotless_i"
  have u1: "str_upper stub_env ?t = ''T2D_WIKI''"
    by (simp add: stub_env_def dotless_i_def upper_char_def ascii_lowercase_def
          ascii_uppercase_def)
  have u2: "str_upper stub_env ''T2D_WIKI'' = ''T2D_WIKI''"
    by (simp add: stub_env_def upper_char_def ascii_lowercase_def ascii_uppercase_def)
  have h1: "str_upper stub_env ?t = str_upper stub_env ''T2D_WIKI''"
    by (simp only: u1 u2)
  have h2: "str_upper stub_env (str_upper stub_env ?t) = str_upper stub_env ?t"
    by (simp only: u1 u2)
  have h3: "str_upper stub_env ?t \<in> ALLOWED_TABLES"
    by (simp only: u1) (simp add: ALLOWED_TABLES_def)
  have u: "\<And>x. (stub_request ''x'')\<lparr>table_name := x\<rparr> = stub_request x"
    by (simp add: stub_request_def)
  note T = table_name_case_insensitive [of stub_env ?t "''T2D_WIKI''" stub_embedding 3 "[]"
      "stub_request ''x''", unfolded u]
  from T h1 h3
  have "query_snowflake_for_context stub_env stub_embedding ?t 3 []
          = query_snowflake_for_context stub_env stub_embedding ''T2D_WIKI'' 3 [] \<and>
        process_query stub_env (stub_request ?t) []
          = process_query stub_env (stub_request ''T2D_WIKI'') [] \<and>
        fst (query_snowflake_for_context stub_env stub_embedding ?t 3 [])
          \<noteq> Inl (HTTPException 403 ''Table not allowed.'')"
    by blast
  with h1 h2 h3 show ?thesis by blast
qed

subsection \<open>C9: failures inside the pipeline\<close>

text \<open>
  C9: every exception raised in the \<^verbatim>\<open>try\<close> block that is not the allow-list's
  \<^verbatim>\<open>HTTPException\<close> (an error of the provider, an error of the store, an error while the
  rows are read) is caught by the handler and answered as the internal failure, status
  500; the only exception that ever leaves \<^verbatim>\<open>process_query\<close> is the framework's
  \<^verbatim>\<open>HTTPException\<close>.
\<close>

theorem failures_become_internal_error:
  assumes "process_query_try e query_data tr = (Inl y, tr')" and "\<not> is_HTTPException y"
  shows "process_query e query_data tr
           = (Inl (HTTPException 500 (''Process failed: '' @ str_exn y)), tr') \<and>
         (\<forall>x t. process_query e query_data tr = (Inl x, t) \<longrightarrow> is_HTTPException x)"
  using assms by (auto simp: process_query_def split: sum.splits prod.splits)

text \<open>C9 for a store that refuses the connection.\<close>

theorem failures_become_internal_error_witness:
  "process_query_try (stub_env\<lparr>connect := \<lambda>cfg. Some ''connection refused''\<rparr>)
      (stub_request ''t2d_wiki'') []
     = (Inl (ExternalError ''connection refused''),
        [EmbeddingsCreate [''what is AI impact on jobs''] ''text-embedding-3-small'',
         Connect stub_settings]) \<and>
   \<not> is_HTTPException (ExternalError ''connection refused'') \<and>
   process_query (stub_env\<lparr>connect := \<lambda>cfg. Some ''connection refused''\<rparr>)
      (stub_request ''t2d_wiki'') []
     = (Inl (HTTPException 500 ''Process failed: connection refused''),
        [EmbeddingsCreate [''what is AI impact on jobs''] ''text-embedding-3-small'',
         Connect stub_settings])"
proof -
  let ?e = "stub_env\<lparr>connect := \<lambda>cfg. Some ''connection refused''\<rparr>"
  have h1: "process_query_try ?e (stub_request ''t2d_wiki'') []
     = (Inl (ExternalError ''connection refused''),
        [EmbeddingsCreate [''what is AI impact on jobs''] ''text-embedding-3-small'',
         Connect stub_settings])"
    by (simp add: process_query_try_def query_snowflake_for_context_def
          ALLOWED_TABLES_def stub_env_def stub_request_def Let_def
          upper_char_def ascii_lowercase_def ascii_uppercase_def)
  have h2: "\<not> is_HTTPException (ExternalError ''connection refused'')" by simp
  from failures_become_internal_error [OF h1 h2] h1 h2 show ?thesis by simp
qed

subsection \<open>C10: the variable \<^verbatim>\<open>sql\<close> is bound\<close>

text \<open>
  C10: the allow-list is contained in the tuple of the branch that binds \<^verbatim>\<open>sql\<close>, so
  for every table name that passes the allow-list check \<^verbatim>\<open>sql\<close> is bound to the query
  text, and \<^verbatim>\<open>query_snowflake_for_context\<close> never raises \<^verbatim>\<open>UnboundLocalError\<close>.
\<close>

theorem sql_bound_for_allowed_tables:
  "ALLOWED_TABLES \<subseteq> set [''T2D_WIKI'', ''AI_IMPACT_DATA''] \<and>
   (str_upper e t \<in> ALLOWED_TABLES \<longrightarrow>
      bind_sql vector_str (str_upper e t) k = Some (sql_text vector_str (str_upper e t) k)) \<and>
   (\<forall>m tr'. query_snowflake_for_context e embedding t k tr \<noteq> (Inl (UnboundLocalError m), tr'))"
  by (auto simp: ALLOWED_TABLES_def bind_sql_def qsfc_never_unbound)

text \<open>C10 at the table \<^verbatim>\<open>t2d_wiki\<close>.\<close>

theorem sql_bound_for_allowed_tables_witness:
  "str_upper stub_env ''t2d_wiki'' \<in> ALLOWED_TABLES \<and>
   bind_sql ''[0.1]'' (str_upper stub_env ''t2d_wiki'') 3 = Some (sql_text ''[0.1]'' ''T2D_WIKI'' 3)"
proof -
  have u: "str_upper stub_env ''t2d_wiki'' = ''T2D_WIKI''"
    by (simp add: stub_env_def upper_char_def ascii_lowercase_def ascii_uppercase_def)
  have h: "str_upper stub_env ''t2d_wiki'' \<in> ALLOWED_TABLES" by (simp add: u ALLOWED_TABLES_def)
  from sql_bound_for_allowed_tables [of stub_env "''t2d_wiki''" "''[0.1]''" 3] h
  show ?thesis by (simp add: u)
qed

end
